theory Spec2Isabelle
  imports Complex_Main "HOL-Library.Word" "HOL-Library.AList"
begin

section \<open>Python values used by the exporter\<close>

text \<open>
  The exporter is Python 3 (\<^verbatim>\<open>return (*min_vals, *max_vals)\<close>), so \<^verbatim>\<open>/\<close> is true
  division. A Python \<^verbatim>\<open>float\<close> is modelled as an exact real number or one of the
  three special values; rounding, overflow to infinity and signed zeros are not
  modelled. Python integers are \<^typ>\<open>int\<close>. Every exception the modelled code can
  raise is a value of \<open>py_error\<close>.
\<close>

datatype py_error =
    ValueError | ZeroDivisionError | OverflowError | IndexError | KeyError
  | StructError | IOError | RuntimeError

datatype pyfloat = Fin real | PInf | NInf | NaN

fun pf_neg :: "pyfloat \<Rightarrow> pyfloat" where
  "pf_neg (Fin x) = Fin (- x)"
| "pf_neg PInf = NInf"
| "pf_neg NInf = PInf"
| "pf_neg NaN = NaN"

fun pf_add :: "pyfloat \<Rightarrow> pyfloat \<Rightarrow> pyfloat" where
  "pf_add (Fin x) (Fin y) = Fin (x + y)"
| "pf_add NaN _ = NaN"
| "pf_add _ NaN = NaN"
| "pf_add PInf NInf = NaN"
| "pf_add NInf PInf = NaN"
| "pf_add PInf _ = PInf"
| "pf_add NInf _ = NInf"
| "pf_add _ PInf = PInf"
| "pf_add _ NInf = NInf"

definition pf_sub :: "pyfloat \<Rightarrow> pyfloat \<Rightarrow> pyfloat" where
  "pf_sub a b = pf_add a (pf_neg b)"

text \<open>The sign of a non-NaN float, and the infinity of a given sign (NaN for sign 0).\<close>

fun pf_sign :: "pyfloat \<Rightarrow> real" where
  "pf_sign (Fin x) = sgn x"
| "pf_sign PInf = 1"
| "pf_sign NInf = - 1"
| "pf_sign NaN = 0"

definition inf_of_sign :: "real \<Rightarrow> pyfloat" where
  "inf_of_sign s = (if 0 < s then PInf else if s < 0 then NInf else NaN)"

fun pf_mul :: "pyfloat \<Rightarrow> pyfloat \<Rightarrow> pyfloat" where
  "pf_mul (Fin x) (Fin y) = Fin (x * y)"
| "pf_mul NaN _ = NaN"
| "pf_mul _ NaN = NaN"
| "pf_mul a b = inf_of_sign (pf_sign a * pf_sign b)"

text \<open>The quotient for a non-zero divisor; \<open>py_truediv\<close> below guards the zero divisor.\<close>

fun pf_quot :: "pyfloat \<Rightarrow> pyfloat \<Rightarrow> pyfloat" where
  "pf_quot (Fin x) (Fin y) = Fin (x / y)"
| "pf_quot NaN _ = NaN"
| "pf_quot _ NaN = NaN"
| "pf_quot (Fin x) _ = Fin 0"
| "pf_quot a (Fin y) = inf_of_sign (pf_sign a * sgn y)"
| "pf_quot _ _ = NaN"

definition py_truediv :: "pyfloat \<Rightarrow> pyfloat \<Rightarrow> py_error + pyfloat" where
  "py_truediv a b = (if b = Fin 0 then Inl ZeroDivisionError else Inr (pf_quot a b))"

text \<open>\<^verbatim>\<open>==\<close> and \<^verbatim>\<open><\<close> on floats: every comparison with NaN is false.\<close>

fun py_eq :: "pyfloat \<Rightarrow> pyfloat \<Rightarrow> bool" where
  "py_eq (Fin x) (Fin y) = (x = y)"
| "py_eq PInf PInf = True"
| "py_eq NInf NInf = True"
| "py_eq _ _ = False"

fun py_lt :: "pyfloat \<Rightarrow> pyfloat \<Rightarrow> bool" where
  "py_lt (Fin x) (Fin y) = (x < y)"
| "py_lt NInf (Fin y) = True"
| "py_lt NInf PInf = True"
| "py_lt (Fin x) PInf = True"
| "py_lt _ _ = False"

text \<open>\<^verbatim>\<open>min(a, b)\<close> and \<^verbatim>\<open>max(a, b)\<close> keep the first argument unless the second beats it.\<close>

definition py_min :: "pyfloat \<Rightarrow> pyfloat \<Rightarrow> pyfloat" where
  "py_min a b = (if py_lt b a then b else a)"

definition py_max :: "pyfloat \<Rightarrow> pyfloat \<Rightarrow> pyfloat" where
  "py_max a b = (if py_lt a b then b else a)"

text \<open>\<^verbatim>\<open>int(x)\<close> drops the fractional part of the magnitude; it raises on infinities and NaN.\<close>

definition py_trunc :: "real \<Rightarrow> int" where
  "py_trunc x = (if x < 0 then - \<lfloor>- x\<rfloor> else \<lfloor>x\<rfloor>)"

fun py_int :: "pyfloat \<Rightarrow> py_error + int" where
  "py_int (Fin x) = Inr (py_trunc x)"
| "py_int PInf = Inl OverflowError"
| "py_int NInf = Inl OverflowError"
| "py_int NaN = Inl ValueError"

section \<open>The numeric remapper (utils.remap_value)\<close>

text \<open>
  \<^verbatim>\<open>
  def remap_value(value, old_min, old_max, new_min=0, new_max=255):
      if old_max == old_min:
          return new_min
      ratio = (value - old_min) / (old_max - old_min)
      return int(new_min + ratio * (new_max - new_min))
  \<close>
  Every caller passes the integer literals 0 and 255 for the target range, which are
  also the defaults, so \<open>new_min\<close> and \<open>new_max\<close> are integers here.
\<close>

definition remap_value :: "pyfloat \<Rightarrow> pyfloat \<Rightarrow> pyfloat \<Rightarrow> int \<Rightarrow> int \<Rightarrow> py_error + int" where
  "remap_value v old_min old_max new_min new_max =
     (if py_eq old_max old_min then Inr new_min
      else case py_truediv (pf_sub v old_min) (pf_sub old_max old_min) of
             Inl e \<Rightarrow> Inl e
           | Inr ratio \<Rightarrow>
               py_int (pf_add (Fin (of_int new_min))
                              (pf_mul ratio (Fin (of_int (new_max - new_min))))))"





section \<open>Exceptions as values\<close>

text \<open>A loop body that may raise, run over a list: the first exception ends the loop.\<close>

fun try_map :: "('a \<Rightarrow> py_error + 'b) \<Rightarrow> 'a list \<Rightarrow> py_error + 'b list" where
  "try_map f [] = Inr []"
| "try_map f (x # xs) =
     (case f x of
        Inl e \<Rightarrow> Inl e
      | Inr y \<Rightarrow> (case try_map f xs of Inl e \<Rightarrow> Inl e | Inr ys \<Rightarrow> Inr (y # ys)))"

text \<open>\<^verbatim>\<open>xs[i]\<close> for an index produced by \<^verbatim>\<open>range\<close> or \<^verbatim>\<open>enumerate\<close> (never negative).\<close>

definition py_index :: "'a list \<Rightarrow> nat \<Rightarrow> py_error + 'a" where
  "py_index xs i = (if i < length xs then Inr (xs ! i) else Inl IndexError)"

text \<open>\<^verbatim>\<open>d[k]\<close> on a dictionary kept in insertion order.\<close>

definition py_getitem :: "('k \<times> 'v) list \<Rightarrow> 'k \<Rightarrow> py_error + 'v" where
  "py_getitem d k = (case map_of d k of None \<Rightarrow> Inl KeyError | Some v \<Rightarrow> Inr v)"

section \<open>The host scene (Maya)\<close>

text \<open>
  The host is not part of the repository; it is a parameter of the model. A scene holds
  one mesh of \<open>num_vertices\<close> vertices whose positions and normals are functions of the
  time cursor, so two reads at the same time return the same data and the vertex order
  is the same at every frame. \<open>writable\<close> says whether opening a path for writing (or
  creating a directory) succeeds; \<open>files\<close> records what was written. A host call
  raises only where a field of the scene says so (\<open>writable\<close>, \<open>mesh_shapes\<close>,
  \<open>fbx_plugin_available\<close>); the positions and normals it returns are finite.
\<close>

type_synonym vec3 = "real \<times> real \<times> real"
type_synonym byte = "8 word"
type_synonym pixel = "int \<times> int \<times> int"

record metadata =
  position_min :: "pyfloat list"
  position_max :: "pyfloat list"
  meta_frames :: int
  meta_vertices :: int
  meta_space :: string
  normal_range :: "(int list \<times> int list) option"

datatype artifact = PngFile "byte list" | JsonFile metadata | FbxFile

record host =
  mesh_exists :: bool
  playback_min :: real
  playback_max :: real
  current_time :: real
  num_vertices :: nat
  point_at :: "real \<Rightarrow> bool \<Rightarrow> nat \<Rightarrow> vec3"
  normal_at :: "real \<Rightarrow> nat \<Rightarrow> vec3"
  mesh_shapes :: "string list"
  uv_sets :: "string list"
  current_uv_set :: string
  vertex_uvs :: "nat \<Rightarrow> nat list"
  uv_edits :: "(nat \<times> real \<times> real) list"
  fbx_plugin_available :: bool
  directories :: "string list"
  writable :: "string \<Rightarrow> bool"
  files :: "(string \<times> artifact) list"

definition get_vertex_positions :: "host \<Rightarrow> bool \<Rightarrow> vec3 list" where
  "get_vertex_positions h use_world_space =
     map (point_at h (current_time h) use_world_space) [0..<num_vertices h]"

definition get_vertex_normals :: "host \<Rightarrow> vec3 list" where
  "get_vertex_normals h = map (normal_at h (current_time h)) [0..<num_vertices h]"

definition get_vertex_count :: "host \<Rightarrow> int" where
  "get_vertex_count h = int (num_vertices h)"

definition get_frame_range :: "host \<Rightarrow> int \<times> int" where
  "get_frame_range h = (py_trunc (playback_min h), py_trunc (playback_max h))"

definition set_current_frame :: "int \<Rightarrow> host \<Rightarrow> host" where
  "set_current_frame frame h = h\<lparr>current_time := of_int frame\<rparr>"

definition get_current_frame :: "host \<Rightarrow> int" where
  "get_current_frame h = py_trunc (current_time h)"

definition ensure_directory :: "string \<Rightarrow> host \<Rightarrow> host \<times> (py_error + unit)" where
  "ensure_directory path h =
     (if path \<in> set (directories h) then (h, Inr ())
      else if writable h path then (h\<lparr>directories := directories h @ [path]\<rparr>, Inr ())
      else (h, Inl IOError))"

definition write_json :: "metadata \<Rightarrow> string \<Rightarrow> host \<Rightarrow> host \<times> (py_error + unit)" where
  "write_json data filepath h =
     (if writable h filepath
      then (h\<lparr>files := AList.update filepath (JsonFile data) (files h)\<rparr>, Inr ())
      else (h, Inl IOError))"

section \<open>Range discovery (utils.find_min_max)\<close>

text \<open>
  \<^verbatim>\<open>
  min_vals = [float('inf'), float('inf'), float('inf')]
  max_vals = [float('-inf'), float('-inf'), float('-inf')]
  for frame, positions in all_positions.items():
      for pos in positions:
          for i in range(3):
              min_vals[i] = min(min_vals[i], pos[i])
              max_vals[i] = max(max_vals[i], pos[i])
  return (*min_vals, *max_vals)
  \<close>
  The result is the six-tuple (min_x, min_y, min_z, max_x, max_y, max_z).
\<close>

type_synonym bounds = "pyfloat \<times> pyfloat \<times> pyfloat \<times> pyfloat \<times> pyfloat \<times> pyfloat"

fun min_max_step :: "bounds \<Rightarrow> vec3 \<Rightarrow> bounds" where
  "min_max_step (min_x, min_y, min_z, max_x, max_y, max_z) (x, y, z) =
     (py_min min_x (Fin x), py_min min_y (Fin y), py_min min_z (Fin z),
      py_max max_x (Fin x), py_max max_y (Fin y), py_max max_z (Fin z))"

definition find_min_max :: "(int \<times> vec3 list) list \<Rightarrow> bounds" where
  "find_min_max all_positions =
     foldl (\<lambda>acc (frame, positions). foldl min_max_step acc positions)
           (PInf, PInf, PInf, NInf, NInf, NInf) all_positions"

section \<open>The sampling pipeline (core.encode_vat)\<close>

record args =
  mesh_name :: string
  output_dir :: string
  frame_start :: "int option"
  frame_end :: "int option"
  include_normals :: bool
  export_mesh :: bool
  use_world_space :: bool
  uv_set_name :: string
  force_uv :: bool
  skip_first_frame :: bool

record plan =
  first_frame :: int
  last_frame :: int
  total_frames :: int
  num_verts :: int
  num_frames :: int
  texture_start_frame :: int

text \<open>\<^verbatim>\<open>x or default\<close> on an optional integer: \<^verbatim>\<open>None\<close> and \<^verbatim>\<open>0\<close> are both falsy.\<close>

fun py_or :: "int option \<Rightarrow> int \<Rightarrow> int" where
  "py_or None d = d"
| "py_or (Some n) d = (if n = 0 then d else n)"

text \<open>
  Lines 44 to 47: a missing bound comes from the host's playback range.
  \<^verbatim>\<open>
  if frame_start is None or frame_end is None:
      fs, fe = utils.get_frame_range()
      frame_start = frame_start or fs
      frame_end = frame_end or fe
  \<close>
\<close>

definition frame_range :: "args \<Rightarrow> host \<Rightarrow> int \<times> int" where
  "frame_range a h =
     (case (frame_start a, frame_end a) of
        (Some s, Some e) \<Rightarrow> (s, e)
      | _ \<Rightarrow> (py_or (frame_start a) (fst (get_frame_range h)),
               py_or (frame_end a) (snd (get_frame_range h))))"

text \<open>
  Lines 39 to 58: the mesh check, the frame range, the derived counts and the
  skip-first-frame check. Nothing here changes the host.
\<close>

definition frame_plan :: "args \<Rightarrow> host \<Rightarrow> py_error + plan" where
  "frame_plan a h =
     (if \<not> mesh_exists h then Inl ValueError
      else
        let (fs, fe) = frame_range a h;
            total = fe - fs + 1;
            nv = get_vertex_count h
        in if skip_first_frame a \<and> total < 2 then Inl ValueError
           else Inr \<lparr>first_frame = fs, last_frame = fe, total_frames = total, num_verts = nv,
                     num_frames = (if skip_first_frame a then total - 1 else total),
                     texture_start_frame = (if skip_first_frame a then fs + 1 else fs)\<rparr>)"

text \<open>
  The delta loop of one frame:
  \<^verbatim>\<open>
  for i, pos in enumerate(positions):
      delta = (
          pos[0] - proxy_positions[i][0],
          pos[1] - proxy_positions[i][1],
          pos[2] - proxy_positions[i][2]
      )
      deltas.append(delta)
  \<close>
\<close>

fun vec_sub :: "vec3 \<Rightarrow> vec3 \<Rightarrow> vec3" where
  "vec_sub (x, y, z) (px, py, pz) = (x - px, y - py, z - pz)"

fun frame_deltas :: "vec3 list \<Rightarrow> nat \<Rightarrow> vec3 list \<Rightarrow> py_error + vec3 list" where
  "frame_deltas proxy_positions i [] = Inr []"
| "frame_deltas proxy_positions i (pos # rest) =
     (case py_index proxy_positions i of
        Inl e \<Rightarrow> Inl e
      | Inr p \<Rightarrow>
          (case frame_deltas proxy_positions (Suc i) rest of
             Inl e \<Rightarrow> Inl e
           | Inr ds \<Rightarrow> Inr (vec_sub pos p # ds)))"

text \<open>
  The sample loop over \<^verbatim>\<open>range(frame_start, frame_end + 1)\<close>; the dictionaries
  \<open>all_deltas\<close> and \<open>all_normals\<close> are kept in insertion order. When normals are not
  requested \<open>all_normals\<close> stays empty (it is \<^verbatim>\<open>None\<close> in the source and never read).
\<close>

fun sample_frames ::
  "bool \<Rightarrow> bool \<Rightarrow> vec3 list \<Rightarrow> int list \<Rightarrow> host \<Rightarrow>
   (int \<times> vec3 list) list \<Rightarrow> (int \<times> vec3 list) list \<Rightarrow>
   host \<times> (py_error + (int \<times> vec3 list) list \<times> (int \<times> vec3 list) list)" where
  "sample_frames world normals proxy_positions [] h all_deltas all_normals =
     (h, Inr (all_deltas, all_normals))"
| "sample_frames world normals proxy_positions (frame # frames) h all_deltas all_normals =
     (let h' = set_current_frame frame h;
          positions = get_vertex_positions h' world
      in case frame_deltas proxy_positions 0 positions of
           Inl e \<Rightarrow> (h', Inl e)
         | Inr deltas \<Rightarrow>
             sample_frames world normals proxy_positions frames h'
               (AList.update frame deltas all_deltas)
               (if normals then AList.update frame (get_vertex_normals h') all_normals
                else all_normals))"

text \<open>Quantizing one delta and one row (lines 106 to 116).\<close>

fun quantize_delta :: "bounds \<Rightarrow> vec3 \<Rightarrow> py_error + pixel" where
  "quantize_delta (min_x, min_y, min_z, max_x, max_y, max_z) (dx, dy, dz) =
     (case remap_value (Fin dx) min_x max_x 0 255 of
        Inl e \<Rightarrow> Inl e
      | Inr r \<Rightarrow>
          (case remap_value (Fin dy) min_y max_y 0 255 of
             Inl e \<Rightarrow> Inl e
           | Inr g \<Rightarrow>
               (case remap_value (Fin dz) min_z max_z 0 255 of
                  Inl e \<Rightarrow> Inl e
                | Inr b \<Rightarrow> Inr (r, g, b))))"

definition position_row :: "bounds \<Rightarrow> (int \<times> vec3 list) list \<Rightarrow> int \<Rightarrow> py_error + pixel list" where
  "position_row b all_deltas frame =
     (case py_getitem all_deltas frame of
        Inl e \<Rightarrow> Inl e
      | Inr deltas \<Rightarrow> try_map (quantize_delta b) deltas)"

definition position_image ::
  "bounds \<Rightarrow> (int \<times> vec3 list) list \<Rightarrow> int \<Rightarrow> int \<Rightarrow> py_error + pixel list list" where
  "position_image b all_deltas texture_start frame_last =
     try_map (position_row b all_deltas) [texture_start..frame_last]"

text \<open>
  The normal texture (lines 123 to 136): fixed range \<open>[-1, 1]\<close>, X negated before the remap.
\<close>

fun quantize_normal :: "vec3 \<Rightarrow> py_error + pixel" where
  "quantize_normal (nx, ny, nz) =
     (case remap_value (pf_neg (Fin nx)) (Fin (- 1)) (Fin 1) 0 255 of
        Inl e \<Rightarrow> Inl e
      | Inr r \<Rightarrow>
          (case remap_value (Fin ny) (Fin (- 1)) (Fin 1) 0 255 of
             Inl e \<Rightarrow> Inl e
           | Inr g \<Rightarrow>
               (case remap_value (Fin nz) (Fin (- 1)) (Fin 1) 0 255 of
                  Inl e \<Rightarrow> Inl e
                | Inr b \<Rightarrow> Inr (r, g, b))))"

definition normal_row :: "(int \<times> vec3 list) list \<Rightarrow> int \<Rightarrow> py_error + pixel list" where
  "normal_row all_normals frame =
     (case py_getitem all_normals frame of
        Inl e \<Rightarrow> Inl e
      | Inr normals \<Rightarrow> try_map quantize_normal normals)"

definition normal_image ::
  "(int \<times> vec3 list) list \<Rightarrow> int \<Rightarrow> int \<Rightarrow> py_error + pixel list list" where
  "normal_image all_normals texture_start frame_last =
     try_map (normal_row all_normals) [texture_start..frame_last]"

section \<open>The image encoder (core.save_png)\<close>

text \<open>
  \<^verbatim>\<open>zlib.crc32\<close> and \<^verbatim>\<open>zlib.compress\<close> are library functions outside the repository:
  the model takes them as parameters. \<^verbatim>\<open>zlib.crc32\<close> returns an unsigned 32-bit value.
\<close>

record zlib =
  crc32 :: "byte list \<Rightarrow> 32 word"
  compress :: "byte list \<Rightarrow> nat \<Rightarrow> byte list"

text \<open>Four bytes, most significant first; a byte keeps the low eight bits of its argument.\<close>

definition be32 :: "int \<Rightarrow> byte list" where
  "be32 n = [word_of_int (n div 16777216), word_of_int (n div 65536),
             word_of_int (n div 256), word_of_int n]"

text \<open>\<^verbatim>\<open>struct.pack\<close> raises \<^verbatim>\<open>struct.error\<close> on a value outside the field's range.\<close>

definition pack_U32 :: "int \<Rightarrow> py_error + byte list" where
  "pack_U32 n = (if 0 \<le> n \<and> n \<le> 4294967295 then Inr (be32 n) else Inl StructError)"

definition pack_B :: "int \<Rightarrow> py_error + byte" where
  "pack_B v = (if 0 \<le> v \<and> v \<le> 255 then Inr (word_of_int v) else Inl StructError)"

text \<open>\<^verbatim>\<open>struct.pack('BBB', r, g, b)\<close>\<close>

fun pack_BBB :: "pixel \<Rightarrow> py_error + byte list" where
  "pack_BBB (r, g, b) =
     (case pack_B r of
        Inl e \<Rightarrow> Inl e
      | Inr r' \<Rightarrow>
          (case pack_B g of
             Inl e \<Rightarrow> Inl e
           | Inr g' \<Rightarrow> (case pack_B b of Inl e \<Rightarrow> Inl e | Inr b' \<Rightarrow> Inr [r', g', b'])))"

text \<open>\<^verbatim>\<open>struct.pack('>IIBBBBB', width, height, 8, 2, 0, 0, 0)\<close>\<close>

definition pack_IHDR :: "int \<Rightarrow> int \<Rightarrow> py_error + byte list" where
  "pack_IHDR width height =
     (case pack_U32 width of
        Inl e \<Rightarrow> Inl e
      | Inr w \<Rightarrow>
          (case pack_U32 height of
             Inl e \<Rightarrow> Inl e
           | Inr h \<Rightarrow> Inr (w @ h @ [8, 2, 0, 0, 0])))"

definition png_signature :: "byte list" where
  "png_signature = [0x89, 0x50, 0x4E, 0x47, 0x0D, 0x0A, 0x1A, 0x0A]"

definition tag_IHDR :: "byte list" where "tag_IHDR = [0x49, 0x48, 0x44, 0x52]"
definition tag_IDAT :: "byte list" where "tag_IDAT = [0x49, 0x44, 0x41, 0x54]"
definition tag_IEND :: "byte list" where "tag_IEND = [0x49, 0x45, 0x4E, 0x44]"

text \<open>
  \<^verbatim>\<open>
  def write_chunk(f, chunk_type, data):
      chunk = chunk_type + data
      crc = zlib.crc32(chunk) & 0xffffffff
      f.write(struct.pack('>I', len(data)))
      f.write(chunk)
      f.write(struct.pack('>I', crc))
  \<close>
  The result is the bytes the three writes append. The CRC is below \<open>2^32\<close>, so only the
  first \<^verbatim>\<open>struct.pack\<close> can raise, and it raises before anything of the chunk is written.
\<close>

definition write_chunk :: "zlib \<Rightarrow> byte list \<Rightarrow> byte list \<Rightarrow> py_error + byte list" where
  "write_chunk z chunk_type data =
     (let chunk = chunk_type @ data;
          crc = and (crc32 z chunk) 0xffffffff
      in case pack_U32 (int (length data)) of
           Inl e \<Rightarrow> Inl e
         | Inr len \<Rightarrow>
             (case pack_U32 (uint crc) of
                Inl e \<Rightarrow> Inl e
              | Inr c \<Rightarrow> Inr (len @ chunk @ c)))"

text \<open>
  \<^verbatim>\<open>
  raw_data = b''
  for y in range(height):
      raw_data += b'\x00'  # Filter type: None
      for x in range(width):
          r, g, b = image_data[y][x]
          raw_data += struct.pack('BBB', r, g, b)
  \<close>
\<close>

definition raw_pixel :: "pixel list list \<Rightarrow> nat \<Rightarrow> nat \<Rightarrow> py_error + byte list" where
  "raw_pixel image_data y x =
     (case py_index image_data y of
        Inl e \<Rightarrow> Inl e
      | Inr row \<Rightarrow> (case py_index row x of Inl e \<Rightarrow> Inl e | Inr px \<Rightarrow> pack_BBB px))"

definition raw_scanline :: "pixel list list \<Rightarrow> int \<Rightarrow> nat \<Rightarrow> py_error + byte list" where
  "raw_scanline image_data width y =
     (case try_map (raw_pixel image_data y) [0..<nat width] of
        Inl e \<Rightarrow> Inl e
      | Inr pxs \<Rightarrow> Inr (0 # concat pxs))"

definition raw_image_data :: "pixel list list \<Rightarrow> int \<Rightarrow> int \<Rightarrow> py_error + byte list" where
  "raw_image_data image_data width height =
     (case try_map (raw_scanline image_data width) [0..<nat height] of
        Inl e \<Rightarrow> Inl e
      | Inr rows \<Rightarrow> Inr (concat rows))"

text \<open>
  The bytes written to the open file, and the exception that ended the writing if any.
\<close>

definition png_stream ::
  "zlib \<Rightarrow> pixel list list \<Rightarrow> int \<Rightarrow> int \<Rightarrow> byte list \<times> py_error option" where
  "png_stream z image_data width height =
     (case pack_IHDR width height of
        Inl e \<Rightarrow> (png_signature, Some e)
      | Inr ihdr_data \<Rightarrow>
     (case write_chunk z tag_IHDR ihdr_data of
        Inl e \<Rightarrow> (png_signature, Some e)
      | Inr ihdr \<Rightarrow>
     (case raw_image_data image_data width height of
        Inl e \<Rightarrow> (png_signature @ ihdr, Some e)
      | Inr raw_data \<Rightarrow>
     (case write_chunk z tag_IDAT (compress z raw_data 9) of
        Inl e \<Rightarrow> (png_signature @ ihdr, Some e)
      | Inr idat \<Rightarrow>
     (case write_chunk z tag_IEND [] of
        Inl e \<Rightarrow> (png_signature @ ihdr @ idat, Some e)
      | Inr iend \<Rightarrow> (png_signature @ ihdr @ idat @ iend, None))))))"

definition save_png ::
  "zlib \<Rightarrow> pixel list list \<Rightarrow> int \<Rightarrow> int \<Rightarrow> string \<Rightarrow> host \<Rightarrow> host \<times> (py_error + unit)" where
  "save_png z image_data width height filepath h =
     (if \<not> writable h filepath then (h, Inl IOError)
      else
        let (written, err) = png_stream z image_data width height;
            h' = h\<lparr>files := AList.update filepath (PngFile written) (files h)\<rparr>
        in (h', case err of None \<Rightarrow> Inr () | Some e \<Rightarrow> Inl e))"

text \<open>
  The format as the specification words it: a chunk is the payload length, the type tag,
  the payload and the CRC-32 of tag and payload; the image data is one zero filter byte
  per row followed by three bytes per pixel.
\<close>

definition png_chunk :: "zlib \<Rightarrow> byte list \<Rightarrow> byte list \<Rightarrow> byte list" where
  "png_chunk z tag payload =
     be32 (int (length payload)) @ tag @ payload @ be32 (uint (crc32 z (tag @ payload)))"

fun pixel_bytes :: "pixel \<Rightarrow> byte list" where
  "pixel_bytes (r, g, b) = [word_of_int r, word_of_int g, word_of_int b]"

definition scanlines :: "pixel list list \<Rightarrow> byte list" where
  "scanlines image_data = concat (map (\<lambda>row. 0 # concat (map pixel_bytes row)) image_data)"

fun is_byte_pixel :: "pixel \<Rightarrow> bool" where
  "is_byte_pixel (r, g, b) = (0 \<le> r \<and> r \<le> 255 \<and> 0 \<le> g \<and> g \<le> 255 \<and> 0 \<le> b \<and> b \<le> 255)"

definition byte_grid :: "pixel list list \<Rightarrow> int \<Rightarrow> int \<Rightarrow> bool" where
  "byte_grid image_data width height =
     (int (length image_data) = height \<and>
      list_all (\<lambda>row. int (length row) = width \<and> list_all is_byte_pixel row) image_data)"

section \<open>The UV layout (utils.create_vat_uv)\<close>

text \<open>\<^verbatim>\<open>1.0 / n\<close> for an integer \<open>n\<close>.\<close>

definition py_reciprocal :: "int \<Rightarrow> py_error + real" where
  "py_reciprocal n = (if n = 0 then Inl ZeroDivisionError else Inr (1 / of_int n))"

text \<open>
  \<^verbatim>\<open>
  u = (vtx_id + 0.5) * pixel_size_u
  v = 0.5 * pixel_size_v
  \<close>
\<close>

definition vertex_uv :: "real \<Rightarrow> real \<Rightarrow> nat \<Rightarrow> real \<times> real" where
  "vertex_uv pixel_size_u pixel_size_v vtx_id =
     ((of_nat vtx_id + 0.5) * pixel_size_u, 0.5 * pixel_size_v)"

text \<open>The coordinates the loop over \<^verbatim>\<open>range(vertex_count)\<close> computes, in vertex order.\<close>

definition uv_layout :: "int \<Rightarrow> int \<Rightarrow> py_error + (real \<times> real) list" where
  "uv_layout vertex_count frame_count =
     (case py_reciprocal vertex_count of
        Inl e \<Rightarrow> Inl e
      | Inr pixel_size_u \<Rightarrow>
          (case py_reciprocal frame_count of
             Inl e \<Rightarrow> Inl e
           | Inr pixel_size_v \<Rightarrow>
               Inr (map (vertex_uv pixel_size_u pixel_size_v) [0..<nat vertex_count])))"

record uv_result =
  uv_created :: bool
  uv_skipped :: bool

definition get_uv_set_names :: "host \<Rightarrow> string list" where
  "get_uv_set_names h = (if mesh_shapes h = [] then [] else uv_sets h)"

text \<open>
  The parameter \<open>num_verts\<close> of the source is never read: the vertex count comes from the
  host (\<^verbatim>\<open>cmds.polyEvaluate\<close>). Each \<^verbatim>\<open>cmds.polyEditUV\<close> call is recorded in
  \<open>uv_edits\<close> as the UV component and its new coordinates; \<open>vertex_uvs\<close> gives the UV
  components of a vertex after the planar projection.
\<close>

definition create_vat_uv ::
  "int \<Rightarrow> string \<Rightarrow> bool \<Rightarrow> host \<Rightarrow> host \<times> (py_error + uv_result)" where
  "create_vat_uv frame_count name force h =
     (if mesh_shapes h = [] then (h, Inl ValueError)
      else if name \<in> set (get_uv_set_names h) \<and> \<not> force
      then (h, Inr \<lparr>uv_created = False, uv_skipped = True\<rparr>)
      else
        let h1 = (if name \<in> set (get_uv_set_names h)
                  then h\<lparr>uv_sets := removeAll name (uv_sets h)\<rparr> else h);
            vertex_count = int (num_vertices h1)
        in case uv_layout vertex_count frame_count of
             Inl e \<Rightarrow> (h1, Inl e)
           | Inr uvs \<Rightarrow>
               let h2 = h1\<lparr>uv_sets := uv_sets h1 @ [name], current_uv_set := name\<rparr>;
                   edits = concat (map (\<lambda>vtx_id.
                             map (\<lambda>uv. (uv, fst (uvs ! vtx_id), snd (uvs ! vtx_id)))
                                 (vertex_uvs h2 vtx_id))
                             [0..<nat vertex_count]);
                   h3 = h2\<lparr>uv_edits := uv_edits h2 @ edits\<rparr>;
                   h4 = (if ''map1'' \<in> set (get_uv_set_names h3)
                         then h3\<lparr>current_uv_set := ''map1''\<rparr> else h3)
               in (h4, Inr \<lparr>uv_created = True, uv_skipped = False\<rparr>))"

section \<open>Mesh export (exporter.export_fbx)\<close>

text \<open>
  \<^verbatim>\<open>os.path.join\<close> with two components, on a POSIX path; \<^verbatim>\<open>str.replace\<close> of one
  character by another.
\<close>

definition path_join :: "string \<Rightarrow> string \<Rightarrow> string" where
  "path_join a b =
     (if b \<noteq> [] \<and> hd b = CHR ''/'' then b
      else if a = [] \<or> last a = CHR ''/'' then a @ b
      else a @ ''/'' @ b)"

definition replace_char :: "char \<Rightarrow> char \<Rightarrow> string \<Rightarrow> string" where
  "replace_char old new s = map (\<lambda>c. if c = old then new else c) s"

text \<open>
  The export loads the FBX plug-in (\<^verbatim>\<open>RuntimeError\<close> when it is not available), exports
  the selected mesh and restores the selection it found; the selection is not modelled.
\<close>

definition export_fbx :: "string \<Rightarrow> string \<Rightarrow> host \<Rightarrow> host \<times> (py_error + string)" where
  "export_fbx dir base_name h =
     (if \<not> fbx_plugin_available h then (h, Inl RuntimeError)
      else
        let fbx_path = path_join dir (base_name @ ''.fbx'')
        in (h\<lparr>files := AList.update fbx_path FbxFile (files h)\<rparr>, Inr fbx_path))"

section \<open>The whole run (core.encode_vat)\<close>

record result =
  png_path :: string
  json_path :: string
  fbx_path :: "string option"
  width :: int
  height :: int
  res_num_verts :: int
  res_num_frames :: int
  res_total_frames :: int
  res_skip_first_frame :: bool
  space :: string
  res_uv_set_name :: string
  res_uv_created :: bool
  res_uv_skipped :: bool

text \<open>Lines 68 to 93: the proxy pose at \<open>frame_start\<close>, then the sample loop.\<close>

definition sampling ::
  "args \<Rightarrow> plan \<Rightarrow> host \<Rightarrow>
   host \<times> (py_error + (int \<times> vec3 list) list \<times> (int \<times> vec3 list) list)" where
  "sampling a p h =
     (let h1 = set_current_frame (first_frame p) h;
          proxy_positions = get_vertex_positions h1 (use_world_space a)
      in sample_frames (use_world_space a) (include_normals a) proxy_positions
           [first_frame p..last_frame p] h1 [] [])"

text \<open>Lines 122 to 139: the normal texture, when requested.\<close>

definition save_normals ::
  "zlib \<Rightarrow> args \<Rightarrow> plan \<Rightarrow> string \<Rightarrow> string \<Rightarrow> (int \<times> vec3 list) list \<Rightarrow> host \<Rightarrow>
   host \<times> (py_error + unit)" where
  "save_normals z a p object_dir base_name all_normals h =
     (if include_normals a then
        (case normal_image all_normals (texture_start_frame p) (last_frame p) of
           Inl e \<Rightarrow> (h, Inl e)
         | Inr normal_image_data \<Rightarrow>
             save_png z normal_image_data (num_verts p) (num_frames p)
               (path_join object_dir (base_name @ ''_vnrm.png'')) h)
      else (h, Inr ()))"

fun json_data :: "args \<Rightarrow> plan \<Rightarrow> bounds \<Rightarrow> metadata" where
  "json_data a p (min_x, min_y, min_z, max_x, max_y, max_z) =
     \<lparr>position_min = [min_x, min_y, min_z],
      position_max = [max_x, max_y, max_z],
      meta_frames = num_frames p,
      meta_vertices = num_verts p,
      meta_space = (if use_world_space a then ''world'' else ''object''),
      normal_range = (if include_normals a then Some ([- 1, - 1, - 1], [1, 1, 1]) else None)\<rparr>"

text \<open>Lines 164 to 170: the optional mesh export, posed at \<open>frame_start\<close>.\<close>

definition export_step ::
  "args \<Rightarrow> plan \<Rightarrow> string \<Rightarrow> string \<Rightarrow> host \<Rightarrow> host \<times> (py_error + string option)" where
  "export_step a p object_dir base_name h =
     (if export_mesh a then
        (case export_fbx object_dir base_name (set_current_frame (first_frame p) h) of
           (h', Inl e) \<Rightarrow> (h', Inl e)
         | (h', Inr path) \<Rightarrow> (h', Inr (Some path)))
      else (h, Inr None))"

text \<open>Lines 68 to 170, between storing the original frame and restoring it.\<close>

definition encode_steps ::
  "zlib \<Rightarrow> args \<Rightarrow> plan \<Rightarrow> string \<Rightarrow> string \<Rightarrow> host \<Rightarrow> host \<times> (py_error + result)" where
  "encode_steps z a p object_dir base_name h =
     (case sampling a p h of
        (h2, Inl e) \<Rightarrow> (h2, Inl e)
      | (h2, Inr (all_deltas, all_normals)) \<Rightarrow>
     (let b = find_min_max all_deltas in
      case position_image b all_deltas (texture_start_frame p) (last_frame p) of
        Inl e \<Rightarrow> (h2, Inl e)
      | Inr image_data \<Rightarrow>
     (case save_png z image_data (num_verts p) (num_frames p)
             (path_join object_dir (base_name @ ''_vat.png'')) h2 of
        (h3, Inl e) \<Rightarrow> (h3, Inl e)
      | (h3, Inr _) \<Rightarrow>
     (case save_normals z a p object_dir base_name all_normals h3 of
        (h4, Inl e) \<Rightarrow> (h4, Inl e)
      | (h4, Inr _) \<Rightarrow>
     (case write_json (json_data a p b) (path_join object_dir (base_name @ ''_remap.json'')) h4 of
        (h5, Inl e) \<Rightarrow> (h5, Inl e)
      | (h5, Inr _) \<Rightarrow>
     (case create_vat_uv (num_frames p) (uv_set_name a) (force_uv a) h5 of
        (h6, Inl e) \<Rightarrow> (h6, Inl e)
      | (h6, Inr uv) \<Rightarrow>
     (case export_step a p object_dir base_name h6 of
        (h7, Inl e) \<Rightarrow> (h7, Inl e)
      | (h7, Inr fbx) \<Rightarrow>
          (h7, Inr \<lparr>png_path = path_join object_dir (base_name @ ''_vat.png''),
                    json_path = path_join object_dir (base_name @ ''_remap.json''),
                    fbx_path = fbx,
                    width = num_verts p,
                    height = num_frames p,
                    res_num_verts = num_verts p,
                    res_num_frames = num_frames p,
                    res_total_frames = total_frames p,
                    res_skip_first_frame = skip_first_frame a,
                    space = (if use_world_space a then ''world'' else ''object''),
                    res_uv_set_name = uv_set_name a,
                    res_uv_created = uv_created uv,
                    res_uv_skipped = uv_skipped uv\<rparr>))))))))"

text \<open>
  The run: validation, the output directory, \<^verbatim>\<open>original_frame = get_current_frame()\<close>
  (line 66), the steps, and \<^verbatim>\<open>set_current_frame(original_frame)\<close> (line 173), which
  only a run without exception reaches: the source has no \<^verbatim>\<open>try\<close> around the steps.
\<close>

definition encode_vat :: "zlib \<Rightarrow> args \<Rightarrow> host \<Rightarrow> host \<times> (py_error + result)" where
  "encode_vat z a h =
     (case frame_plan a h of
        Inl e \<Rightarrow> (h, Inl e)
      | Inr p \<Rightarrow>
          let base_name = replace_char CHR ''|'' CHR ''_'' (replace_char CHR '':'' CHR ''_'' (mesh_name a));
              object_dir = path_join (output_dir a) (base_name @ ''_vat'')
          in case ensure_directory object_dir h of
               (h0, Inl e) \<Rightarrow> (h0, Inl e)
             | (h0, Inr _) \<Rightarrow>
                 let original_frame = get_current_frame h0
                 in case encode_steps z a p object_dir base_name h0 of
                      (h7, Inl e) \<Rightarrow> (h7, Inl e)
                    | (h7, Inr r) \<Rightarrow> (set_current_frame original_frame h7, Inr r))"

section \<open>Notions used to state the properties\<close>

text \<open>
  What the host returns for the mesh at frame \<open>f\<close>, and the delta of frame \<open>f\<close> against
  the pose at frame \<open>fs\<close>, vertex by vertex.
\<close>

definition positions_at :: "host \<Rightarrow> bool \<Rightarrow> int \<Rightarrow> vec3 list" where
  "positions_at h world f = map (point_at h (of_int f) world) [0..<num_vertices h]"

definition deltas_at :: "host \<Rightarrow> bool \<Rightarrow> int \<Rightarrow> int \<Rightarrow> vec3 list" where
  "deltas_at h world fs f =
     map (\<lambda>i. vec_sub (point_at h (of_int f) world i) (point_at h (of_int fs) world i))
         [0..<num_vertices h]"

definition normals_at :: "host \<Rightarrow> int \<Rightarrow> vec3 list" where
  "normals_at h f = map (normal_at h (of_int f)) [0..<num_vertices h]"





text \<open>
  An instance of the two library functions for evaluating the model on concrete inputs;
  no property depends on what it computes.
\<close>

definition plain_zlib :: zlib where
  "plain_zlib = \<lparr>crc32 = (\<lambda>bs. 0), compress = (\<lambda>bs level. bs)\<rparr>"


text \<open>
  A small scene for evaluating the model: one vertex that sits at the origin at frame 1
  and moves along X to \<open>-1\<close> at frame 2 and to \<open>1\<close> at frame 3; the time cursor
  starts at frame 0.
\<close>

definition demo_host :: host where
  "demo_host =
     \<lparr>mesh_exists = True, playback_min = 1, playback_max = 3, current_time = 0,
      num_vertices = 1,
      point_at = (\<lambda>t world i. (if t = 2 then - 1 else if t = 3 then 1 else 0, 0, 0)),
      normal_at = (\<lambda>t i. (0, 1, 0)),
      mesh_shapes = [''meshShape''], uv_sets = [''map1''], current_uv_set = ''map1'',
      vertex_uvs = (\<lambda>i. [i]), uv_edits = [], fbx_plugin_available = True,
      directories = [''out/mesh_vat''], writable = (\<lambda>path. True), files = []\<rparr>"

definition demo_args :: args where
  "demo_args =
     \<lparr>mesh_name = ''mesh'', output_dir = ''out'', frame_start = Some 1, frame_end = Some 3,
      include_normals = False, export_mesh = False, use_world_space = True,
      uv_set_name = ''VAT_UV'', force_uv = False, skip_first_frame = False\<rparr>"

text \<open>The same scene with a mesh that has no vertex, and a run that skips the first frame.\<close>

definition empty_mesh_host :: host where
  "empty_mesh_host = demo_host\<lparr>num_vertices := 0\<rparr>"

definition skip_args :: args where
  "skip_args = demo_args\<lparr>skip_first_frame := True\<rparr>"


text \<open>
  The PNG file as the specification describes it: signature, header chunk, one data chunk
  holding the compressed scanlines (compression level 9), and an empty end chunk.
\<close>

definition png_format :: "zlib \<Rightarrow> pixel list list \<Rightarrow> int \<Rightarrow> int \<Rightarrow> byte list" where
  "png_format z image_data w h =
     png_signature
     @ png_chunk z tag_IHDR (be32 w @ be32 h @ [8, 2, 0, 0, 0])
     @ png_chunk z tag_IDAT (compress z (scanlines image_data) 9)
     @ png_chunk z tag_IEND []"

section \<open>Properties of the numeric remapper\<close>


















section \<open>Properties of the UV layout\<close>

lemma uv_layout_value:
  assumes "1 \<le> V" "1 \<le> F"
  shows "uv_layout V F = Inr (map (vertex_uv (1 / of_int V) (1 / of_int F)) [0..<nat V])"
  using assms by (simp add: uv_layout_def py_reciprocal_def)

lemma vertex_uv_u_less:
  assumes "1 \<le> V" "i < j"
  shows "fst (vertex_uv (1 / of_int V) s i) < fst (vertex_uv (1 / of_int V) s j)"
proof -
  have "(0::real) < of_int V" using assms(1) by simp
  moreover have "(of_nat i :: real) + 0.5 < of_nat j + 0.5" using assms(2) by simp
  ultimately show ?thesis by (simp add: vertex_uv_def divide_strict_right_mono)
qed

lemma vertex_uv_u_step:
  "fst (vertex_uv (1 / of_int V) s (Suc i)) - fst (vertex_uv (1 / of_int V) s i) = 1 / of_int V"
proof -
  have "(3 / 2 + real i) / c - (real i + 1 / 2) / c = 1 / c" for c :: real
    by (simp add: diff_divide_distrib [symmetric])
  then show ?thesis by (simp add: vertex_uv_def)
qed

lemma vertex_uv_u_inside:
  assumes "1 \<le> V" "i < nat V"
  shows "0 < fst (vertex_uv (1 / of_int V) s i)" "fst (vertex_uv (1 / of_int V) s i) < 1"
proof -
  have v: "(0::real) < of_int V" using assms(1) by simp
  then show "0 < fst (vertex_uv (1 / of_int V) s i)"
    by (simp add: vertex_uv_def)
  have "int i + 1 \<le> V" using assms by linarith
  then have "(of_int (int i + 1) :: real) \<le> of_int V" by (simp only: of_int_le_iff)
  then have "(of_nat i :: real) + 0.5 < of_int V" by simp
  then show "fst (vertex_uv (1 / of_int V) s i) < 1"
    using v by (simp add: vertex_uv_def)
qed

text \<open>
  C6. For \<open>V \<ge> 1\<close> vertices and \<open>F \<ge> 1\<close> frames vertex \<open>i\<close> gets
  \<open>u = (i + 0.5) * (1/V)\<close> and \<open>v = 0.5 * (1/F)\<close>; the \<open>u\<close> values are strictly
  increasing, spaced by \<open>1/V\<close>, strictly inside \<open>(0, 1)\<close> and so pairwise different, and
  \<open>v\<close> is the same for every vertex. When \<open>create_vat_uv\<close> creates the set, these are
  the coordinates it writes to the UV components of each vertex.
\<close>

theorem uv_layout_properties:
  assumes "1 \<le> V" and "1 \<le> F"
  shows "\<exists>uvs. uv_layout V F = Inr uvs \<and> length uvs = nat V
    \<and> (\<forall>i<nat V. uvs ! i = ((of_nat i + 0.5) * (1 / of_int V), 0.5 * (1 / of_int F)))
    \<and> (\<forall>i j. i < j \<longrightarrow> j < nat V \<longrightarrow> fst (uvs ! i) < fst (uvs ! j))
    \<and> (\<forall>i. Suc i < nat V \<longrightarrow> fst (uvs ! Suc i) - fst (uvs ! i) = 1 / of_int V)
    \<and> (\<forall>i<nat V. 0 < fst (uvs ! i) \<and> fst (uvs ! i) < 1)
    \<and> inj_on (\<lambda>i. fst (uvs ! i)) {..<nat V}
    \<and> (\<forall>i<nat V. snd (uvs ! i) = 0.5 * (1 / of_int F))
    \<and> (\<forall>h name force.
          mesh_shapes h \<noteq> [] \<longrightarrow> int (num_vertices h) = V \<longrightarrow>
          (name \<in> set (uv_sets h) \<longrightarrow> force) \<longrightarrow>
          (\<exists>h'. create_vat_uv F name force h
                  = (h', Inr \<lparr>uv_created = True, uv_skipped = False\<rparr>)
             \<and> uv_edits h' = uv_edits h
                  @ concat (map (\<lambda>i. map (\<lambda>uv. (uv, uvs ! i)) (vertex_uvs h i)) [0..<nat V])))"
proof -
  define uvs where "uvs = map (vertex_uv (1 / of_int V) (1 / of_int F)) [0..<nat V]"
  have n: "uvs ! i = vertex_uv (1 / of_int V) (1 / of_int F) i" if "i < nat V" for i
    using that by (simp add: uvs_def)
  have 1: "uv_layout V F = Inr uvs"
    unfolding uvs_def using assms by (rule uv_layout_value)
  have 2: "length uvs = nat V" by (simp add: uvs_def)
  have 3: "\<forall>i<nat V. uvs ! i = ((of_nat i + 0.5) * (1 / of_int V), 0.5 * (1 / of_int F))"
    by (simp add: n vertex_uv_def)
  have less: "fst (uvs ! i) < fst (uvs ! j)" if "i < j" "j < nat V" for i j
    using that assms(1) by (simp add: n vertex_uv_u_less)
  have 5: "\<forall>i. Suc i < nat V \<longrightarrow> fst (uvs ! Suc i) - fst (uvs ! i) = 1 / of_int V"
    by (simp add: n vertex_uv_u_step)
  have 6: "\<forall>i<nat V. 0 < fst (uvs ! i) \<and> fst (uvs ! i) < 1"
    using assms(1) by (simp add: n vertex_uv_u_inside)
  have 7: "inj_on (\<lambda>i. fst (uvs ! i)) {..<nat V}"
  proof (rule inj_onI)
    fix i j assume ij: "i \<in> {..<nat V}" "j \<in> {..<nat V}" "fst (uvs ! i) = fst (uvs ! j)"
    show "i = j"
    proof (rule ccontr)
      assume "i \<noteq> j"
      then consider "i < j" | "j < i" by linarith
      then show False
      proof cases
        case 1 then show ?thesis using less [of i j] ij by simp
      next
        case 2 then show ?thesis using less [of j i] ij by simp
      qed
    qed
  qed
  have 8: "\<forall>i<nat V. snd (uvs ! i) = 0.5 * (1 / of_int F)"
    by (simp add: n vertex_uv_def)
  have 9: "\<exists>h'. create_vat_uv F name force h
                  = (h', Inr \<lparr>uv_created = True, uv_skipped = False\<rparr>)
             \<and> uv_edits h' = uv_edits h
                  @ concat (map (\<lambda>i. map (\<lambda>uv. (uv, uvs ! i)) (vertex_uvs h i)) [0..<nat V])"
    if "mesh_shapes h \<noteq> []" "int (num_vertices h) = V" "name \<in> set (uv_sets h) \<longrightarrow> force"
    for h name force
    using that 1 by (simp add: create_vat_uv_def get_uv_set_names_def Let_def)
  from 1 2 3 less 5 6 7 8 9 show ?thesis by blast
qed

theorem uv_layout_properties_witness:
  "uv_layout 4 3 = Inr [(1 / 8, 1 / 6), (3 / 8, 1 / 6), (5 / 8, 1 / 6), (7 / 8, 1 / 6)]
   \<and> (\<exists>h'. create_vat_uv 3 ''VAT_UV'' False demo_host
            = (h', Inr \<lparr>uv_created = True, uv_skipped = False\<rparr>)
         \<and> uv_edits h' = [(0, 1 / 2, 1 / 6)])"
proof -
  have e: "[0..<4] = [0, 1, 2, 3::nat]" by (simp add: upt_rec)
  have 1: "uv_layout 4 3 = Inr [(1 / 8, 1 / 6), (3 / 8, 1 / 6), (5 / 8, 1 / 6), (7 / 8, 1 / 6)]"
    by (simp add: uv_layout_def py_reciprocal_def vertex_uv_def e)
  have o: "(1::int) \<le> 1" "(1::int) \<le> 3" by simp_all
  from uv_layout_properties [OF o]
  obtain uvs where u: "uv_layout 1 3 = Inr uvs"
    and c: "\<forall>h name force.
          mesh_shapes h \<noteq> [] \<longrightarrow> int (num_vertices h) = 1 \<longrightarrow>
          (name \<in> set (uv_sets h) \<longrightarrow> force) \<longrightarrow>
          (\<exists>h'. create_vat_uv 3 name force h
                  = (h', Inr \<lparr>uv_created = True, uv_skipped = False\<rparr>)
             \<and> uv_edits h' = uv_edits h
                  @ concat (map (\<lambda>i. map (\<lambda>uv. (uv, uvs ! i)) (vertex_uvs h i)) [0..<nat 1]))"
    by (elim exE conjE) (rule that)
  have uvs: "uvs = [(1 / 2, 1 / 6)]"
    using u by (simp add: uv_layout_def py_reciprocal_def vertex_uv_def)
  have "mesh_shapes demo_host \<noteq> []" "int (num_vertices demo_host) = 1"
      "''VAT_UV'' \<in> set (uv_sets demo_host) \<longrightarrow> False"
    by (simp_all add: demo_host_def)
  with c obtain h' where "create_vat_uv 3 ''VAT_UV'' False demo_host
      = (h', Inr \<lparr>uv_created = True, uv_skipped = False\<rparr>)"
    "uv_edits h' = uv_edits demo_host
       @ concat (map (\<lambda>i. map (\<lambda>uv. (uv, uvs ! i)) (vertex_uvs demo_host i)) [0..<nat 1])"
    by blast
  then have "\<exists>h'. create_vat_uv 3 ''VAT_UV'' False demo_host
            = (h', Inr \<lparr>uv_created = True, uv_skipped = False\<rparr>)
         \<and> uv_edits h' = [(0, 1 / 2, 1 / 6)]"
    by (simp add: uvs demo_host_def)
  with 1 show ?thesis by simp
qed

section \<open>Properties of the image encoder\<close>

lemma try_map_Inr:
  assumes "\<And>x. x \<in> set xs \<Longrightarrow> f x = Inr (g x)"
  shows "try_map f xs = Inr (map g xs)"
  using assms by (induction xs) simp_all

lemma try_map_Inl:
  assumes "try_map f xs = Inl e"
  shows "\<exists>x\<in>set xs. f x = Inl e"
  using assms by (induction xs) (auto split: sum.splits)



lemma pack_BBB_byte: "is_byte_pixel px \<Longrightarrow> pack_BBB px = Inr (pixel_bytes px)"
  by (cases px) (simp add: pack_B_def)

lemma raw_scanline_row:
  assumes "y < length img" "int (length (img ! y)) = w" "list_all is_byte_pixel (img ! y)"
  shows "raw_scanline img w y = Inr (0 # concat (map pixel_bytes (img ! y)))"
proof -
  define row where "row = img ! y"
  have len: "nat w = length row" using assms(2) by (auto simp: row_def)
  have "raw_pixel img y x = Inr (pixel_bytes (row ! x))" if "x \<in> set [0..<nat w]" for x
  proof -
    from that have x: "x < length row" by (simp add: len)
    then have "is_byte_pixel (row ! x)"
      using assms(3) by (simp add: row_def list_all_length)
    then show ?thesis
      using assms(1) x by (simp add: raw_pixel_def py_index_def row_def pack_BBB_byte)
  qed
  then have "try_map (raw_pixel img y) [0..<nat w] = Inr (map (\<lambda>x. pixel_bytes (row ! x)) [0..<nat w])"
    by (rule try_map_Inr)
  moreover have "map (\<lambda>x. pixel_bytes (row ! x)) [0..<length row] = map pixel_bytes row"
    by (rule nth_equalityI) simp_all
  ultimately show ?thesis by (simp add: raw_scanline_def len row_def)
qed

lemma raw_image_data_rows:
  assumes "nat h = length img"
    and "\<And>y. y < length img \<Longrightarrow> int (length (img ! y)) = w \<and> list_all is_byte_pixel (img ! y)"
  shows "raw_image_data img w h = Inr (scanlines img)"
proof -
  have "raw_scanline img w y = Inr (0 # concat (map pixel_bytes (img ! y)))"
    if "y \<in> set [0..<nat h]" for y
  proof -
    from that have y: "y < length img" by (simp add: assms(1))
    with assms(2) have "int (length (img ! y)) = w" "list_all is_byte_pixel (img ! y)"
      by simp_all
    with y show ?thesis by (rule raw_scanline_row)
  qed
  then have "try_map (raw_scanline img w) [0..<nat h]
      = Inr (map (\<lambda>y. 0 # concat (map pixel_bytes (img ! y))) [0..<nat h])"
    by (rule try_map_Inr)
  moreover have "map (\<lambda>y. 0 # concat (map pixel_bytes (img ! y))) [0..<length img]
      = map (\<lambda>row. 0 # concat (map pixel_bytes row)) img"
    by (rule nth_equalityI) simp_all
  ultimately show ?thesis by (simp add: raw_image_data_def scanlines_def assms(1))
qed

lemma raw_image_data_grid:
  assumes "byte_grid img w h"
  shows "raw_image_data img w h = Inr (scanlines img)"
proof (rule raw_image_data_rows)
  show "nat h = length img" using assms by (auto simp: byte_grid_def)
  show "int (length (img ! y)) = w \<and> list_all is_byte_pixel (img ! y)" if "y < length img" for y
    using assms that by (simp add: byte_grid_def list_all_length)
qed

lemma crc_mask: "and (c :: 32 word) 0xffffffff = c"
proof -
  have "(0xffffffff :: 32 word) = - 1" by simp
  then show ?thesis by (simp only: and.right_neutral)
qed

lemma uint32_bounded: "uint (c :: 32 word) \<le> 4294967295"
  using uint_bounded [of c] by simp

lemma write_chunk_value:
  "write_chunk z tag data =
     (if length data \<le> 4294967295 then Inr (png_chunk z tag data) else Inl StructError)"
  by (simp add: write_chunk_def pack_U32_def png_chunk_def crc_mask uint32_bounded)

lemma pack_IHDR_value:
  assumes "0 \<le> w" "0 \<le> h"
  shows "pack_IHDR w h =
     (if w \<le> 4294967295 \<and> h \<le> 4294967295 then Inr (be32 w @ be32 h @ [8, 2, 0, 0, 0])
      else Inl StructError)"
  using assms by (simp add: pack_IHDR_def pack_U32_def)

lemma png_stream_value:
  assumes "0 \<le> w" "0 \<le> h" "byte_grid img w h"
  shows "png_stream z img w h =
     (if w \<le> 4294967295 \<and> h \<le> 4294967295
      then (if length (compress z (scanlines img) 9) \<le> 4294967295
            then (png_format z img w h, None)
            else (png_signature @ png_chunk z tag_IHDR (be32 w @ be32 h @ [8, 2, 0, 0, 0]),
                  Some StructError))
      else (png_signature, Some StructError))"
proof -
  have i: "pack_IHDR w h =
     (if w \<le> 4294967295 \<and> h \<le> 4294967295 then Inr (be32 w @ be32 h @ [8, 2, 0, 0, 0])
      else Inl StructError)"
    using assms(1,2) by (simp add: pack_IHDR_value)
  have l: "length (be32 w @ be32 h @ [8, 2, 0, 0, 0 :: byte]) \<le> 4294967295"
    by (simp add: be32_def)
  have r: "raw_image_data img w h = Inr (scanlines img)"
    using assms(3) by (rule raw_image_data_grid)
  show ?thesis
    unfolding png_stream_def i
    by (simp add: write_chunk_value l r png_format_def del: length_append)
qed

text \<open>
  C5. For \<open>width \<ge> 1\<close>, \<open>height \<ge> 1\<close> and a height-by-width grid of byte triples, the
  stream \<open>save_png\<close> writes is the signature, the IHDR chunk (width, height, 8, 2, 0, 0, 0),
  one IDAT chunk with the level-9 compression of the scanlines (a zero filter byte, then
  three bytes per pixel, top row first) and an empty IEND chunk, each chunk being length,
  tag, payload and CRC-32 of tag and payload. The stream is complete exactly when the
  width, the height and the compressed length fit the four-byte fields; otherwise
  \<open>struct.pack\<close> raises.
\<close>

theorem save_png_stream_format:
  assumes "1 \<le> w" and "1 \<le> h" and "byte_grid img w h"
  shows "(\<forall>bytes. png_stream z img w h = (bytes, None) \<longrightarrow> bytes = png_format z img w h)
    \<and> (w \<le> 4294967295 \<and> h \<le> 4294967295
         \<and> length (compress z (scanlines img) 9) \<le> 4294967295
        \<longrightarrow> png_stream z img w h = (png_format z img w h, None)
          \<and> (\<forall>host path. writable host path \<longrightarrow>
                save_png z img w h path host =
                  (host\<lparr>files := AList.update path (PngFile (png_format z img w h)) (files host)\<rparr>,
                   Inr ())))
    \<and> (\<not> (w \<le> 4294967295 \<and> h \<le> 4294967295
            \<and> length (compress z (scanlines img) 9) \<le> 4294967295)
        \<longrightarrow> snd (png_stream z img w h) = Some StructError)"
proof -
  have "0 \<le> w" "0 \<le> h" using assms(1,2) by simp_all
  from png_stream_value [OF this assms(3), of z] show ?thesis
    by (auto simp: save_png_def split: if_splits)
qed

theorem save_png_stream_format_witness:
  "png_stream plain_zlib [[(255, 0, 0), (0, 255, 0)], [(0, 0, 255), (1, 2, 3)]] 2 2 =
     ([0x89, 0x50, 0x4E, 0x47, 0x0D, 0x0A, 0x1A, 0x0A,
       0, 0, 0, 13, 0x49, 0x48, 0x44, 0x52, 0, 0, 0, 2, 0, 0, 0, 2, 8, 2, 0, 0, 0, 0, 0, 0, 0,
       0, 0, 0, 14, 0x49, 0x44, 0x41, 0x54,
       0, 255, 0, 0, 0, 255, 0, 0, 0, 0, 255, 1, 2, 3, 0, 0, 0, 0,
       0, 0, 0, 0, 0x49, 0x45, 0x4E, 0x44, 0, 0, 0, 0], None)"
proof -
  let ?img = "[[(255, 0, 0), (0, 255, 0)], [(0, 0, 255), (1, 2, 3)]] :: pixel list list"
  have g: "byte_grid ?img 2 2" by (simp add: byte_grid_def)
  have s: "scanlines ?img = [0, 255, 0, 0, 0, 255, 0, 0, 0, 0, 255, 1, 2, 3]"
    by (simp add: scanlines_def)
  have f: "png_format plain_zlib ?img 2 2 =
     [0x89, 0x50, 0x4E, 0x47, 0x0D, 0x0A, 0x1A, 0x0A,
       0, 0, 0, 13, 0x49, 0x48, 0x44, 0x52, 0, 0, 0, 2, 0, 0, 0, 2, 8, 2, 0, 0, 0, 0, 0, 0, 0,
       0, 0, 0, 14, 0x49, 0x44, 0x41, 0x54,
       0, 255, 0, 0, 0, 255, 0, 0, 0, 0, 255, 1, 2, 3, 0, 0, 0, 0,
       0, 0, 0, 0, 0x49, 0x45, 0x4E, 0x44, 0, 0, 0, 0]"
    by (simp add: png_format_def s png_chunk_def be32_def plain_zlib_def png_signature_def
        tag_IHDR_def tag_IDAT_def tag_IEND_def)
  have c: "length (compress plain_zlib (scanlines ?img) 9) \<le> 4294967295"
    by (simp add: s plain_zlib_def)
  have b: "(2::int) \<le> 4294967295 \<and> (2::int) \<le> 4294967295
      \<and> length (compress plain_zlib (scanlines ?img) 9) \<le> 4294967295"
    using c by simp
  have o: "(1::int) \<le> 2" by simp
  have "png_stream plain_zlib ?img 2 2 = (png_format plain_zlib ?img 2 2, None)"
    using save_png_stream_format [of 2 2 ?img plain_zlib, OF o o g, THEN conjunct2, THEN conjunct1]
      b by blast
  then show ?thesis by (simp only: f)
qed

section \<open>Properties of the sampling loop\<close>

lemma try_map_total:
  assumes "\<And>x. x \<in> set xs \<Longrightarrow> \<exists>y. f x = Inr y"
  shows "\<exists>ys. try_map f xs = Inr ys"
  using assms
proof (induction xs)
  case Nil
  then show ?case by simp
next
  case (Cons x xs)
  then obtain y where "f x = Inr y" by auto
  moreover from Cons obtain ys where "try_map f xs = Inr ys" by auto
  ultimately show ?case by simp
qed

lemma set_current_frame_at [simp]:
  "set_current_frame f (h\<lparr>current_time := t\<rparr>) = h\<lparr>current_time := of_int f\<rparr>"
  by (simp add: set_current_frame_def)

lemma get_vertex_positions_at [simp]:
  "get_vertex_positions (h\<lparr>current_time := of_int f\<rparr>) world = positions_at h world f"
  by (simp add: get_vertex_positions_def positions_at_def)

lemma get_vertex_normals_at [simp]:
  "get_vertex_normals (h\<lparr>current_time := of_int f\<rparr>) = normals_at h f"
  by (simp add: get_vertex_normals_def normals_at_def)

lemma frame_deltas_map:
  assumes "i + length ps \<le> length proxy"
  shows "frame_deltas proxy i ps =
     Inr (map (\<lambda>k. vec_sub (ps ! k) (proxy ! (i + k))) [0..<length ps])"
  using assms
proof (induction ps arbitrary: i)
  case Nil
  then show ?case by simp
next
  case (Cons pos rest)
  then have i: "i < length proxy" and r: "Suc i + length rest \<le> length proxy" by simp_all
  have "map (\<lambda>k. vec_sub ((pos # rest) ! k) (proxy ! (i + k))) [0..<length (pos # rest)]
      = vec_sub pos (proxy ! i) # map (\<lambda>k. vec_sub (rest ! k) (proxy ! (Suc i + k))) [0..<length rest]"
  proof -
    have "[0..<length (pos # rest)] = 0 # map Suc [0..<length rest]"
      by (simp add: map_Suc_upt upt_conv_Cons del: upt_Suc)
    then show ?thesis by (simp add: o_def del: upt_Suc)
  qed
  then show ?case
    using Cons.IH [OF r] i by (simp add: py_index_def del: upt_Suc)
qed

lemma frame_deltas_at:
  "frame_deltas (positions_at h world fs) 0 (positions_at h world f) = Inr (deltas_at h world fs f)"
proof -
  have "frame_deltas (positions_at h world fs) 0 (positions_at h world f) =
     Inr (map (\<lambda>k. vec_sub (positions_at h world f ! k) (positions_at h world fs ! (0 + k)))
            [0..<length (positions_at h world f)])"
    by (rule frame_deltas_map) (simp add: positions_at_def)
  also have "map (\<lambda>k. vec_sub (positions_at h world f ! k) (positions_at h world fs ! (0 + k)))
            [0..<length (positions_at h world f)] = deltas_at h world fs f"
    by (rule nth_equalityI) (simp_all add: positions_at_def deltas_at_def)
  finally show ?thesis .
qed

lemma update_fresh:
  "k \<notin> fst ` set al \<Longrightarrow> AList.update k v al = al @ [(k, v)]"
  by (induction al) auto

lemma sample_frames_value:
  assumes "distinct frames" "set frames \<inter> fst ` set ad = {}" "set frames \<inter> fst ` set an = {}"
  shows "sample_frames world normals (positions_at h world fs) frames (h\<lparr>current_time := t\<rparr>) ad an =
     (h\<lparr>current_time := (if frames = [] then t else of_int (last frames))\<rparr>,
      Inr (ad @ map (\<lambda>f. (f, deltas_at h world fs f)) frames,
           if normals then an @ map (\<lambda>f. (f, normals_at h f)) frames else an))"
  using assms
proof (induction frames arbitrary: t ad an)
  case Nil
  then show ?case by simp
next
  case (Cons f frames)
  let ?ad = "ad @ [(f, deltas_at h world fs f)]"
  let ?an = "if normals then an @ [(f, normals_at h f)] else an"
  have fresh: "f \<notin> fst ` set ad" "f \<notin> fst ` set an" using Cons.prems by auto
  have d: "distinct frames" using Cons.prems by simp
  have a: "set frames \<inter> fst ` set ?ad = {}" using Cons.prems by auto
  have n: "set frames \<inter> fst ` set ?an = {}" using Cons.prems by auto
  have step: "sample_frames world normals (positions_at h world fs) (f # frames) (h\<lparr>current_time := t\<rparr>) ad an
      = sample_frames world normals (positions_at h world fs) frames (h\<lparr>current_time := of_int f\<rparr>) ?ad ?an"
    by (simp add: frame_deltas_at update_fresh fresh)
  show ?case
    unfolding step Cons.IH [OF d a n] by simp
qed

lemma sampling_value:
  "sampling a p h =
     (h\<lparr>current_time := of_int (if first_frame p \<le> last_frame p then last_frame p else first_frame p)\<rparr>,
      Inr (map (\<lambda>f. (f, deltas_at h (use_world_space a) (first_frame p) f)) [first_frame p..last_frame p],
           if include_normals a then map (\<lambda>f. (f, normals_at h f)) [first_frame p..last_frame p] else []))"
proof -
  have h: "set_current_frame (first_frame p) h = h\<lparr>current_time := of_int (first_frame p)\<rparr>"
    by (simp add: set_current_frame_def)
  have l: "last [first_frame p..last_frame p] = last_frame p" if "first_frame p \<le> last_frame p"
    using that by (simp add: upto_rec2)
  show ?thesis
    unfolding sampling_def Let_def h get_vertex_positions_at
    by (subst sample_frames_value) (auto simp: l)
qed

section \<open>Properties of range discovery and quantization\<close>











section \<open>Properties of the assembled textures\<close>


lemma concat_keyed: "concat (map snd (map (\<lambda>k. (k, g k)) xs)) = concat (map g xs)"
  by (simp add: o_def)

lemma frame_range_given:
  "frame_start a = Some s \<Longrightarrow> frame_end a = Some e \<Longrightarrow> frame_range a h = (s, e)"
  by (simp add: frame_range_def)

lemma frame_plan_value:
  assumes "mesh_exists h" "frame_range a h = (fs, fe)"
  shows "frame_plan a h =
     (if skip_first_frame a \<and> fe - fs + 1 < 2 then Inl ValueError
      else Inr \<lparr>first_frame = fs, last_frame = fe, total_frames = fe - fs + 1,
                num_verts = int (num_vertices h),
                num_frames = (if skip_first_frame a then fe - fs + 1 - 1 else fe - fs + 1),
                texture_start_frame = (if skip_first_frame a then fs + 1 else fs)\<rparr>)"
  using assms by (simp add: frame_plan_def get_vertex_count_def Let_def)











section \<open>The skipped first frame and the proxy row\<close>














section \<open>The time cursor and validation\<close>









lemma demo_paths:
  "replace_char CHR ''|'' CHR ''_'' (replace_char CHR '':'' CHR ''_'' ''mesh'') = ''mesh''"
  "path_join ''out'' ''mesh_vat'' = ''out/mesh_vat''"
  "path_join ''out/mesh_vat'' ''mesh_vat.png'' = ''out/mesh_vat/mesh_vat.png''"
  "path_join ''out/mesh_vat'' ''mesh_remap.json'' = ''out/mesh_vat/mesh_remap.json''"
  by (simp_all add: replace_char_def path_join_def)








text \<open>
  C9, as amended. Validation fails with \<open>ValueError\<close>, before any change to the host, for a
  mesh that does not exist and for skip-first-frame with fewer than 2 frames, and for
  nothing else: a mesh that exists with an empty vertex set passes it with
  \<open>num_verts = 0\<close>, and the run goes on to move the time cursor and sample the (empty)
  frames.
\<close>

theorem validation_scope:
  "(\<not> mesh_exists h \<longrightarrow> encode_vat z a h = (h, Inl ValueError))
   \<and> (mesh_exists h \<longrightarrow> skip_first_frame a \<longrightarrow>
        snd (frame_range a h) - fst (frame_range a h) + 1 < 2 \<longrightarrow>
        encode_vat z a h = (h, Inl ValueError))
   \<and> (mesh_exists h \<longrightarrow> num_vertices h = 0 \<longrightarrow>
        \<not> (skip_first_frame a \<and> snd (frame_range a h) - fst (frame_range a h) + 1 < 2) \<longrightarrow>
        (\<exists>p h' an. frame_plan a h = Inr p \<and> num_verts p = 0
           \<and> sampling a p h = (h', Inr (map (\<lambda>f. (f, [])) [first_frame p..last_frame p], an))
           \<and> current_time h' =
               of_int (if first_frame p \<le> last_frame p then last_frame p else first_frame p)))"
proof (intro conjI impI)
  assume "\<not> mesh_exists h"
  then show "encode_vat z a h = (h, Inl ValueError)"
    by (simp add: encode_vat_def frame_plan_def)
next
  assume "mesh_exists h" "skip_first_frame a"
    "snd (frame_range a h) - fst (frame_range a h) + 1 < 2"
  then have "frame_plan a h = Inl ValueError"
    by (cases "frame_range a h") (simp add: frame_plan_def)
  then show "encode_vat z a h = (h, Inl ValueError)"
    by (simp add: encode_vat_def)
next
  assume m: "mesh_exists h" and n: "num_vertices h = 0"
    and ok: "\<not> (skip_first_frame a \<and> snd (frame_range a h) - fst (frame_range a h) + 1 < 2)"
  obtain fs fe where r: "frame_range a h = (fs, fe)" by (cases "frame_range a h")
  define p where "p = \<lparr>first_frame = fs, last_frame = fe, total_frames = fe - fs + 1,
      num_verts = int (num_vertices h),
      num_frames = (if skip_first_frame a then fe - fs + 1 - 1 else fe - fs + 1),
      texture_start_frame = (if skip_first_frame a then fs + 1 else fs)\<rparr>"
  have plan: "frame_plan a h = Inr p"
    using ok r unfolding p_def by (simp add: frame_plan_value [OF m r])
  have nv: "num_verts p = 0" by (simp add: p_def n)
  obtain h' an where s: "sampling a p h = (h', Inr (map (\<lambda>f. (f, [])) [first_frame p..last_frame p], an))"
    and t: "current_time h' =
        of_int (if first_frame p \<le> last_frame p then last_frame p else first_frame p)"
    by (simp add: sampling_value deltas_at_def n)
  from plan nv s t
  show "\<exists>p h' an. frame_plan a h = Inr p \<and> num_verts p = 0
      \<and> sampling a p h = (h', Inr (map (\<lambda>f. (f, [])) [first_frame p..last_frame p], an))
      \<and> current_time h' =
          of_int (if first_frame p \<le> last_frame p then last_frame p else first_frame p)"
    by blast
qed

theorem validation_scope_witness:
  "encode_vat plain_zlib demo_args (demo_host\<lparr>mesh_exists := False\<rparr>)
     = (demo_host\<lparr>mesh_exists := False\<rparr>, Inl ValueError)
   \<and> encode_vat plain_zlib (skip_args\<lparr>frame_end := Some 1\<rparr>) demo_host
     = (demo_host, Inl ValueError)
   \<and> (\<exists>p h' an. frame_plan demo_args empty_mesh_host = Inr p \<and> num_verts p = 0
         \<and> sampling demo_args p empty_mesh_host
            = (h', Inr (map (\<lambda>f. (f, [])) [first_frame p..last_frame p], an))
         \<and> current_time h' =
             of_int (if first_frame p \<le> last_frame p then last_frame p else first_frame p))"
proof -
  have 1: "encode_vat plain_zlib demo_args (demo_host\<lparr>mesh_exists := False\<rparr>)
     = (demo_host\<lparr>mesh_exists := False\<rparr>, Inl ValueError)"
    using validation_scope [of "demo_host\<lparr>mesh_exists := False\<rparr>" plain_zlib demo_args]
    by simp
  have 2: "encode_vat plain_zlib (skip_args\<lparr>frame_end := Some 1\<rparr>) demo_host
     = (demo_host, Inl ValueError)"
    using validation_scope [of demo_host plain_zlib "skip_args\<lparr>frame_end := Some 1\<rparr>"]
    by (simp add: demo_host_def skip_args_def demo_args_def frame_range_def)
  have 3: "\<exists>p h' an. frame_plan demo_args empty_mesh_host = Inr p \<and> num_verts p = 0
         \<and> sampling demo_args p empty_mesh_host
            = (h', Inr (map (\<lambda>f. (f, [])) [first_frame p..last_frame p], an))
         \<and> current_time h' =
             of_int (if first_frame p \<le> last_frame p then last_frame p else first_frame p)"
    using validation_scope [of empty_mesh_host plain_zlib demo_args]
    by (simp add: empty_mesh_host_def demo_host_def demo_args_def)
  from 1 2 3 show ?thesis by blast
qed

text \<open>
  The claim as stated fails: for the demo scene with an empty mesh the run is not stopped
  in validation. It moves the cursor from frame 0 to frame 3, writes a texture of width 0
  and the metadata, and only then fails, with \<open>ZeroDivisionError\<close> from
  \<^verbatim>\<open>1.0 / vertex_count\<close> in \<open>create_vat_uv\<close>.
\<close>

theorem validation_scope_counterexample:
  "mesh_exists empty_mesh_host \<and> num_vertices empty_mesh_host = 0
   \<and> get_current_frame empty_mesh_host = 0
   \<and> snd (encode_vat plain_zlib demo_args empty_mesh_host) = Inl ZeroDivisionError
   \<and> current_time (fst (encode_vat plain_zlib demo_args empty_mesh_host)) = 3
   \<and> map fst (files (fst (encode_vat plain_zlib demo_args empty_mesh_host)))
       = [''out/mesh_vat/mesh_vat.png'', ''out/mesh_vat/mesh_remap.json'']"
proof -
  let ?P = "\<lparr>first_frame = 1, last_frame = 3, total_frames = 3, num_verts = 0, num_frames = 3,
      texture_start_frame = 1\<rparr>"
  let ?H = "empty_mesh_host\<lparr>current_time := 3\<rparr>"
  have 1: "mesh_exists empty_mesh_host" "num_vertices empty_mesh_host = 0"
      "get_current_frame empty_mesh_host = 0"
    by (simp_all add: empty_mesh_host_def demo_host_def get_current_frame_def py_trunc_def)
  have plan: "frame_plan demo_args empty_mesh_host = Inr ?P"
    by (simp add: frame_plan_def frame_range_def demo_args_def empty_mesh_host_def demo_host_def
        get_vertex_count_def)
  have d: "ensure_directory ''out/mesh_vat'' empty_mesh_host = (empty_mesh_host, Inr ())"
    by (simp add: ensure_directory_def empty_mesh_host_def demo_host_def)
  have s: "sampling demo_args ?P empty_mesh_host = (?H, Inr ([(1, []), (2, []), (3, [])], []))"
    by (simp add: sampling_value deltas_at_def 1 demo_args_def upto_rec1)
  have i: "position_image (find_min_max [(1, []), (2, []), (3, [])]) [(1, []), (2, []), (3, [])] 1 3
      = Inr [[], [], []]"
    by (simp add: position_image_def position_row_def py_getitem_def upto_rec1)
  have g: "byte_grid [[], [], []] 0 3" by (simp add: byte_grid_def)
  have c: "length (compress plain_zlib (scanlines [[], [], []]) 9) \<le> 4294967295"
    by (simp add: plain_zlib_def scanlines_def)
  have o: "(0::int) \<le> 0" "(0::int) \<le> 3" by simp_all
  have png: "png_stream plain_zlib [[], [], []] 0 3 = (png_format plain_zlib [[], [], []] 0 3, None)"
    using png_stream_value [OF o g, of plain_zlib] c by simp
  have steps: "snd (encode_steps plain_zlib demo_args ?P ''out/mesh_vat'' ''mesh'' empty_mesh_host)
        = Inl ZeroDivisionError
      \<and> current_time (fst (encode_steps plain_zlib demo_args ?P ''out/mesh_vat'' ''mesh'' empty_mesh_host)) = 3
      \<and> map fst (files (fst (encode_steps plain_zlib demo_args ?P ''out/mesh_vat'' ''mesh'' empty_mesh_host)))
        = [''out/mesh_vat/mesh_vat.png'', ''out/mesh_vat/mesh_remap.json'']"
    apply (simp add: encode_steps_def s i demo_paths)
    apply (simp add: save_png_def png empty_mesh_host_def demo_host_def demo_args_def
        save_normals_def write_json_def create_vat_uv_def get_uv_set_names_def uv_layout_def
        py_reciprocal_def Let_def)
    done
  have na: "mesh_name demo_args = ''mesh''" "output_dir demo_args = ''out''"
    by (simp_all add: demo_args_def)
  obtain H where H: "encode_steps plain_zlib demo_args ?P ''out/mesh_vat'' ''mesh'' empty_mesh_host
      = (H, Inl ZeroDivisionError)" "current_time H = 3"
      "map fst (files H) = [''out/mesh_vat/mesh_vat.png'', ''out/mesh_vat/mesh_remap.json'']"
    using steps by (metis prod.collapse)
  have run: "encode_vat plain_zlib demo_args empty_mesh_host = (H, Inl ZeroDivisionError)"
    by (simp add: encode_vat_def plan na demo_paths d H(1))
  from 1 run H(2,3) show ?thesis by simp
qed

end
